theory Spec2Isabelle
  imports Main
begin

section \<open>Python values used by \<open>telegram_client.py\<close>\<close>

text \<open>
  Strings are \<open>string\<close>: a \<open>char\<close> stands for a code point below 256, which is enough
  for every literal of the program. Python integers are \<open>int\<close>. A value that may be
  \<open>None\<close> is an \<open>option\<close>.
\<close>

text \<open>
  The exceptions the program tells apart: \<open>except Exception\<close> catches every subclass of
  \<open>Exception\<close> (kept with its class name and its \<open>str(e)\<close>), and lets
  \<open>KeyboardInterrupt\<close> and \<open>asyncio.CancelledError\<close> through, both of which derive
  from \<open>BaseException\<close> only.
\<close>

datatype exn = Exception string string | KeyboardInterrupt | CancelledError

fun is_Exception :: "exn \<Rightarrow> bool" where
  "is_Exception (Exception _ _) = True"
| "is_Exception _ = False"

subsection \<open>\<open>str(int)\<close> and zero padding\<close>

definition digit_char :: "nat \<Rightarrow> char" where
  "digit_char n = ''0123456789'' ! (n mod 10)"

fun str_nat :: "nat \<Rightarrow> string" where
  "str_nat n = (if n < 10 then [digit_char n] else str_nat (n div 10) @ [digit_char n])"

declare str_nat.simps [simp del]

definition str_int :: "int \<Rightarrow> string" where
  "str_int i = (if i < 0 then CHR ''-'' # str_nat (nat (- i)) else str_nat (nat i))"

definition zpad :: "nat \<Rightarrow> nat \<Rightarrow> string" where
  "zpad w n = replicate (w - length (str_nat n)) CHR ''0'' @ str_nat n"

subsection \<open>\<open>datetime\<close>\<close>

text \<open>
  A \<open>datetime\<close> object: its seven calendar fields and \<open>tzinfo\<close>, here the UTC offset in
  minutes, \<open>None\<close> for a naive value.
\<close>

record datetime =
  year :: nat
  month :: nat
  day :: nat
  hour :: nat
  minute :: nat
  second :: nat
  microsecond :: nat
  tzinfo :: "int option"

text \<open>
  Naive datetimes compare as the tuples
  \<open>(year, month, day, hour, minute, second, microsecond)\<close>, lexicographically.
\<close>

definition dt_fields :: "datetime \<Rightarrow> nat list" where
  "dt_fields d = [year d, month d, day d, hour d, minute d, second d, microsecond d]"

fun tuple_lt :: "nat list \<Rightarrow> nat list \<Rightarrow> bool" where
  "tuple_lt (x # xs) (y # ys) = (x < y \<or> (x = y \<and> tuple_lt xs ys))"
| "tuple_lt [] (y # ys) = True"
| "tuple_lt _ [] = False"

definition dt_lt :: "datetime \<Rightarrow> datetime \<Rightarrow> bool" where
  "dt_lt a b = tuple_lt (dt_fields a) (dt_fields b)"

definition dt_le :: "datetime \<Rightarrow> datetime \<Rightarrow> bool" where
  "dt_le a b = (dt_fields a = dt_fields b \<or> tuple_lt (dt_fields a) (dt_fields b))"

text \<open>\<open>isoformat()\<close>: the fraction only when nonzero, the offset only when aware.\<close>

definition isoformat :: "datetime \<Rightarrow> string" where
  "isoformat d =
     zpad 4 (year d) @ ''-'' @ zpad 2 (month d) @ ''-'' @ zpad 2 (day d) @ ''T'' @
     zpad 2 (hour d) @ '':'' @ zpad 2 (minute d) @ '':'' @ zpad 2 (second d) @
     (if microsecond d = 0 then [] else ''.'' @ zpad 6 (microsecond d)) @
     (case tzinfo d of
        None \<Rightarrow> []
      | Some off \<Rightarrow>
          (if off < 0 then ''-'' else ''+'') @ zpad 2 (nat \<bar>off\<bar> div 60) @ '':'' @
          zpad 2 (nat \<bar>off\<bar> mod 60))"

subsection \<open>\<open>datetime.strptime(s, "%Y-%m-%d")\<close>\<close>

text \<open>
  The standard library turns the format into the regular expression
  \<^verbatim>\<open>(?P<Y>\d\d\d\d)-(?P<m>1[0-2]|0[1-9]|[1-9])-(?P<d>3[0-1]|[1-2]\d|0[1-9]|[1-9]| [1-9])\<close>,
  matches it at the start of the string, raises \<open>ValueError\<close> when it does not match or
  when unconverted data remains, and then builds the date, which raises \<open>ValueError\<close>
  for year 0 and for a day the month does not have. \<open>None\<close> is the \<open>ValueError\<close>.
\<close>

definition digit_of :: "char \<Rightarrow> nat option" where
  "digit_of c = map_of (zip ''0123456789'' [0, 1, 2, 3, 4, 5, 6, 7, 8, 9]) c"

definition digit_val :: "char \<Rightarrow> nat" where
  "digit_val c = (case digit_of c of Some v \<Rightarrow> v | None \<Rightarrow> 0)"

fun match_Y :: "string \<Rightarrow> (nat \<times> string) option" where
  "match_Y (a # b # c # d # r) =
     (case (digit_of a, digit_of b, digit_of c, digit_of d) of
        (Some a', Some b', Some c', Some d') \<Rightarrow> Some (1000 * a' + 100 * b' + 10 * c' + d', r)
      | _ \<Rightarrow> None)"
| "match_Y _ = None"

fun match_lit :: "char \<Rightarrow> string \<Rightarrow> string option" where
  "match_lit c (x # r) = (if x = c then Some r else None)"
| "match_lit c [] = None"

text \<open>
  One alternative of two characters, the first from \<open>as\<close>, the second from \<open>bs\<close>; its
  value is \<open>int()\<close> of the two characters, where a leading blank counts for nothing.
\<close>

fun match_two :: "string \<Rightarrow> string \<Rightarrow> string \<Rightarrow> (nat \<times> string) option" where
  "match_two as bs (x # y # r) =
     (if x \<in> set as \<and> y \<in> set bs
      then Some (10 * digit_val x + digit_val y, r)
      else None)"
| "match_two as bs _ = None"

fun match_one :: "string \<Rightarrow> string \<Rightarrow> (nat \<times> string) option" where
  "match_one as (x # r) = (if x \<in> set as then Some (digit_val x, r) else None)"
| "match_one as [] = None"

text \<open>Ordered alternation: the first alternative whose continuation succeeds.\<close>

fun first_of :: "'a option list \<Rightarrow> 'a option" where
  "first_of [] = None"
| "first_of (Some v # _) = Some v"
| "first_of (None # xs) = first_of xs"

definition match_d :: "string \<Rightarrow> (nat \<times> string) option" where
  "match_d s = first_of
     [match_two ''3'' ''01'' s,
      match_two ''12'' ''0123456789'' s,
      match_two ''0'' ''123456789'' s,
      match_one ''123456789'' s,
      match_two '' '' ''123456789'' s]"

definition match_m_then :: "(nat \<times> string \<Rightarrow> 'a option) \<Rightarrow> string \<Rightarrow> 'a option" where
  "match_m_then k s = first_of
     [Option.bind (match_two ''1'' ''012'' s) k,
      Option.bind (match_two ''0'' ''123456789'' s) k,
      Option.bind (match_one ''123456789'' s) k]"

definition is_leap :: "nat \<Rightarrow> bool" where
  "is_leap y = (y mod 4 = 0 \<and> (y mod 100 \<noteq> 0 \<or> y mod 400 = 0))"

definition days_in_month :: "nat \<Rightarrow> nat \<Rightarrow> nat" where
  "days_in_month y m =
     (if m = 2 then (if is_leap y then 29 else 28)
      else if m \<in> {4, 6, 9, 11} then 30 else 31)"

definition make_date :: "nat \<Rightarrow> nat \<Rightarrow> nat \<Rightarrow> datetime option" where
  "make_date y m d =
     (if 1 \<le> y \<and> y \<le> 9999 \<and> 1 \<le> m \<and> m \<le> 12 \<and> 1 \<le> d \<and> d \<le> days_in_month y m
      then Some \<lparr>year = y, month = m, day = d, hour = 0, minute = 0, second = 0,
                 microsecond = 0, tzinfo = None\<rparr>
      else None)"

definition strptime :: "string \<Rightarrow> datetime option" where
  "strptime s =
     (case match_Y s of
        None \<Rightarrow> None
      | Some (y, r0) \<Rightarrow>
          (case match_lit CHR ''-'' r0 of
             None \<Rightarrow> None
           | Some r1 \<Rightarrow>
               (case match_m_then
                       (\<lambda>(m, r2). case match_lit CHR ''-'' r2 of
                                     None \<Rightarrow> None
                                   | Some r3 \<Rightarrow> map_option (\<lambda>(d, r4). (m, d, r4)) (match_d r3))
                       r1 of
                  None \<Rightarrow> None
                | Some (m, d, r4) \<Rightarrow> if r4 \<noteq> [] then None else make_date y m d)))"

section \<open>The external messaging client\<close>

text \<open>
  What the program reads of a Telethon message, dialog and user. \<open>m_media\<close> is the class
  name of the media object, \<open>m_out\<close> the \<open>out\<close> flag.
\<close>

record message =
  m_id :: int
  m_text :: "string option"
  m_date :: "datetime option"
  m_sender_id :: "int option"
  m_out :: bool
  m_media :: "string option"

record dialog =
  d_id :: int
  d_title :: "string option"
  d_entity :: nat

record user =
  u_id :: int
  u_first_name :: "string option"
  u_last_name :: "string option"
  u_username :: "string option"
  u_phone :: "string option"

text \<open>
  An asynchronous iterator is the list of what its successive \<open>__anext__\<close> calls do: yield
  an item or raise; at the end of the list it is exhausted. Nothing behind a raise is
  ever reached.
\<close>

datatype 'a step = Yield 'a | Raise exn

datatype peer = Entity nat | PeerId int

text \<open>
  The client library is not part of the program: it is a record of the answers it gives,
  as a test double scripts them. \<open>tl_new\<close> is the constructor \<open>TelegramClient(...)\<close>,
  \<open>tl_iter_messages peer search limit\<close> the iterator of
  \<open>iter_messages(peer, search=..., limit=...)\<close>; \<open>tl_get_me\<close> answers \<open>None\<close> when the
  session is not authorised.
\<close>

record service =
  tl_new :: "exn option"
  tl_session_exists :: bool
  tl_start :: "exn option"
  tl_get_dialogs :: "exn + dialog list"
  tl_iter_messages :: "peer \<Rightarrow> string option \<Rightarrow> nat option \<Rightarrow> message option step list"
  tl_get_me :: "exn + user option"
  tl_disconnect :: "exn option"

text \<open>The calls made on the library, in order; \<open>Next\<close> is one \<open>__anext__\<close> of an iterator.\<close>

datatype call =
  NewClient | Start | GetDialogs | IterMessages peer "string option" "nat option" | Next
  | GetMe | Disconnect

section \<open>Result envelopes\<close>

record match_record =
  mr_chat_id :: int
  mr_chat_title :: string
  mr_message_id :: int
  mr_text :: string
  mr_date :: "string option"
  mr_sender_id :: "int option"

record scrape_record =
  sr_message_id :: int
  sr_text :: string
  sr_date :: string
  sr_is_read :: bool
  sr_media_type :: "string option"

text \<open>
  \<open>ErrorEnvelope e rs\<close> is the dictionary \<open>{"error": e, "results": rs}\<close>,
  \<open>ResultEnvelope k rs n\<close> is \<open>{"query" or "date": k, "results": rs, "total": n}\<close>.
\<close>

datatype 'r envelope = ErrorEnvelope string "'r list" | ResultEnvelope string "'r list" int

text \<open>\<open>str(e)\<close>: the message of an exception.\<close>

fun str_exn :: "exn \<Rightarrow> string" where
  "str_exn (Exception cls msg) = msg"
| "str_exn _ = []"

text \<open>One more \<open>__anext__\<close> call than the rest of a loop makes.\<close>

definition pulled :: "'a \<times> nat \<Rightarrow> 'a \<times> nat" where
  "pulled rn = (fst rn, Suc (snd rn))"

section \<open>\<open>scrape_saved_messages\<close>\<close>

definition scrape_record_of :: "message \<Rightarrow> datetime \<Rightarrow> scrape_record" where
  "scrape_record_of m dt =
     \<lparr>sr_message_id = m_id m,
      sr_text = (case m_text m of None \<Rightarrow> [] | Some t \<Rightarrow> t),
      sr_date = isoformat dt,
      sr_is_read = (\<not> m_out m),
      sr_media_type = m_media m\<rparr>"

text \<open>
  The loop over the iterator, lines 131 to 147. The result is what the loop leaves
  (\<open>Inl\<close> the exception the iterator raised, \<open>Inr\<close> the list \<open>results\<close>) and the number of
  \<open>__anext__\<close> calls it made.
\<close>

fun scrape_loop ::
  "datetime \<Rightarrow> datetime \<Rightarrow> message option step list \<Rightarrow> scrape_record list
    \<Rightarrow> (exn + scrape_record list) \<times> nat" where
  "scrape_loop start_of_day end_of_day [] rs = (Inr rs, 1)"
| "scrape_loop start_of_day end_of_day (Raise x # rest) rs = (Inl x, 1)"
| "scrape_loop start_of_day end_of_day (Yield None # rest) rs =
     pulled (scrape_loop start_of_day end_of_day rest rs)"
| "scrape_loop start_of_day end_of_day (Yield (Some m) # rest) rs =
     (case m_date m of
        None \<Rightarrow> pulled (scrape_loop start_of_day end_of_day rest rs)
      | Some dt \<Rightarrow>
          (let msg_date = dt\<lparr>tzinfo := None\<rparr>;
               rs' = (if dt_le start_of_day msg_date \<and> dt_le msg_date end_of_day
                      then rs @ [scrape_record_of m dt] else rs)
           in if dt_lt msg_date start_of_day then (Inr rs', 1)
              else pulled (scrape_loop start_of_day end_of_day rest rs')))"

definition start_of_day :: "datetime \<Rightarrow> datetime" where
  "start_of_day date_obj = date_obj\<lparr>hour := 0, minute := 0, second := 0, microsecond := 0\<rparr>"

definition end_of_day :: "datetime \<Rightarrow> datetime" where
  "end_of_day date_obj =
     date_obj\<lparr>hour := 23, minute := 59, second := 59, microsecond := 999999\<rparr>"

text \<open>The message of the \<open>AttributeError\<close> that \<open>me.id\<close> raises when \<open>me\<close> is \<open>None\<close>.\<close>

definition no_attribute_id :: string where
  "no_attribute_id =
     CHR 0x27 # ''NoneType'' @ CHR 0x27 # '' object has no attribute '' @ CHR 0x27 # ''id'' @ [CHR 0x27]"

text \<open>
  The method on a connected client. \<open>Inl\<close> is an exception that leaves the method,
  \<open>Inr\<close> the dictionary it returns; the second component lists the library calls made.
\<close>

definition scrape_saved_messages ::
  "service \<Rightarrow> string \<Rightarrow> (exn + scrape_record envelope) \<times> call list" where
  "scrape_saved_messages tg target_date =
     (case strptime target_date of
        None \<Rightarrow> (Inr (ErrorEnvelope ''Invalid date format. Use YYYY-MM-DD'' []), [])
      | Some date_obj \<Rightarrow>
          (case tl_get_me tg of
             Inl x \<Rightarrow> (Inl x, [GetMe])
           | Inr None \<Rightarrow>
               (Inl (Exception ''AttributeError'' no_attribute_id), [GetMe])
           | Inr (Some me) \<Rightarrow>
               (let saved_messages_id = u_id me;
                    (r, n) = scrape_loop (start_of_day date_obj) (end_of_day date_obj)
                               (tl_iter_messages tg (PeerId saved_messages_id) None None) [];
                    calls = GetMe # IterMessages (PeerId saved_messages_id) None None
                              # replicate n Next
                in case r of
                     Inr rs \<Rightarrow> (Inr (ResultEnvelope target_date rs (int (length rs))), calls)
                   | Inl x \<Rightarrow>
                       if is_Exception x
                       then (Inr (ErrorEnvelope (''Failed to scrape Saved Messages: '' @ str_exn x) []),
                             calls)
                       else (Inl x, calls))))"

section \<open>\<open>search_global\<close>\<close>

definition chat_title :: "dialog \<Rightarrow> string" where
  "chat_title d =
     (case d_title d of
        None \<Rightarrow> ''Chat '' @ str_int (d_id d)
      | Some t \<Rightarrow> if t = [] then ''Chat '' @ str_int (d_id d) else t)"

definition match_record_of :: "dialog \<Rightarrow> message \<Rightarrow> string \<Rightarrow> match_record" where
  "match_record_of d m t =
     \<lparr>mr_chat_id = d_id d,
      mr_chat_title = chat_title d,
      mr_message_id = m_id m,
      mr_text = take 500 t,
      mr_date = map_option isoformat (m_date m),
      mr_sender_id = m_sender_id m\<rparr>"

text \<open>The body of the inner loop, lines 86 to 94: one message, the list before and after.\<close>

definition search_append :: "dialog \<Rightarrow> message option \<Rightarrow> match_record list \<Rightarrow> match_record list" where
  "search_append d mo rs =
     (case mo of
        None \<Rightarrow> rs
      | Some m \<Rightarrow>
          (case m_text m of
             None \<Rightarrow> rs
           | Some t \<Rightarrow> if t = [] then rs else rs @ [match_record_of d m t]))"

text \<open>
  The inner loop over one dialog's iterator: the exception that ended it, if one did, the
  list \<open>results\<close> as it stands then, and the number of \<open>__anext__\<close> calls.
\<close>

fun search_messages ::
  "dialog \<Rightarrow> message option step list \<Rightarrow> match_record list
    \<Rightarrow> (exn option \<times> match_record list) \<times> nat" where
  "search_messages d [] rs = ((None, rs), 1)"
| "search_messages d (Raise x # rest) rs = ((Some x, rs), 1)"
| "search_messages d (Yield mo # rest) rs = pulled (search_messages d rest (search_append d mo rs))"

text \<open>
  The loop over the dialogs, lines 79 to 97: \<open>except Exception: pass\<close> goes on with the
  next dialog, any other exception leaves the method.
\<close>

fun search_dialogs ::
  "service \<Rightarrow> string \<Rightarrow> dialog list \<Rightarrow> match_record list \<Rightarrow> call list
    \<Rightarrow> (exn + match_record list) \<times> call list" where
  "search_dialogs tg query [] rs calls = (Inr rs, calls)"
| "search_dialogs tg query (d # ds) rs calls =
     (case search_messages d (tl_iter_messages tg (Entity (d_entity d)) (Some query) (Some 100)) rs of
        ((r, rs'), n) \<Rightarrow>
          (let calls' = calls @ IterMessages (Entity (d_entity d)) (Some query) (Some 100)
                          # replicate n Next
           in case r of
                None \<Rightarrow> search_dialogs tg query ds rs' calls'
              | Some x \<Rightarrow>
                  if is_Exception x then search_dialogs tg query ds rs' calls'
                  else (Inl x, calls')))"

text \<open>Lines 79 to 99: the scan of the chosen dialogs and the envelope it returns.\<close>

definition search_in ::
  "service \<Rightarrow> string \<Rightarrow> dialog list \<Rightarrow> (exn + match_record envelope) \<times> call list" where
  "search_in tg query dialogs =
     (case search_dialogs tg query dialogs [] [GetDialogs] of
        (Inl x, calls) \<Rightarrow> (Inl x, calls)
      | (Inr rs, calls) \<Rightarrow> (Inr (ResultEnvelope query rs (int (length rs))), calls))"

text \<open>\<open>if chat_id:\<close> holds for an integer other than 0, not for \<open>None\<close> and not for 0.\<close>

fun truthy :: "int option \<Rightarrow> bool" where
  "truthy None = False"
| "truthy (Some i) = (i \<noteq> 0)"

definition search_global ::
  "service \<Rightarrow> string \<Rightarrow> int option \<Rightarrow> (exn + match_record envelope) \<times> call list" where
  "search_global tg query chat_id =
     (if truthy chat_id
      then (case tl_get_dialogs tg of
              Inl x \<Rightarrow> (Inl x, [GetDialogs])
            | Inr all_dialogs \<Rightarrow>
                (let dialogs = filter (\<lambda>dialog. Some (d_id dialog) = chat_id) all_dialogs
                 in if dialogs = []
                    then (Inr (ErrorEnvelope
                                 (''Chat ID '' @ str_int (case chat_id of Some c \<Rightarrow> c | None \<Rightarrow> 0)
                                    @ '' not found'') []),
                          [GetDialogs])
                    else search_in tg query dialogs))
      else (case tl_get_dialogs tg of
              Inl x \<Rightarrow> (Inl x, [GetDialogs])
            | Inr dialogs \<Rightarrow> search_in tg query dialogs))"

section \<open>\<open>get_me\<close>, \<open>connect\<close>, \<open>disconnect\<close> and \<open>main\<close>\<close>

definition get_me :: "service \<Rightarrow> (exn + user) \<times> call list" where
  "get_me tg =
     (case tl_get_me tg of
        Inl x \<Rightarrow> (Inl x, [GetMe])
      | Inr None \<Rightarrow> (Inl (Exception ''AttributeError'' no_attribute_id), [GetMe])
      | Inr (Some me) \<Rightarrow> (Inr me, [GetMe]))"

text \<open>What the program prints: a line of text, or one JSON document.\<close>

datatype payload =
  Authenticated user string
  | UserInfo user
  | SearchResults "match_record envelope"
  | ScrapeResults "scrape_record envelope"
  | ErrorReport string string

datatype printed = Line string | Json payload | Help

text \<open>
  \<open>connect\<close>, lines 37 to 50: whether \<open>self.client\<close> got assigned, the exception raised
  if any, the library calls and the lines printed.
\<close>

definition connect :: "service \<Rightarrow> bool \<times> exn option \<times> call list \<times> printed list" where
  "connect tg =
     (case tl_new tg of
        Some x \<Rightarrow> (False, Some x, [NewClient], [])
      | None \<Rightarrow>
          (if \<not> tl_session_exists tg
           then (case tl_start tg of
                   Some x \<Rightarrow>
                     (True, Some x, [NewClient, Start],
                      [Line ''[INFO] No existing session found. Starting authentication...''])
                 | None \<Rightarrow>
                     (True, None, [NewClient, Start],
                      [Line ''[INFO] No existing session found. Starting authentication...'',
                       Line ''[INFO] Session saved. You can now use this client without re-authenticating.'']))
           else (True, tl_start tg, [NewClient, Start], [Line ''[INFO] Using existing session...''])))"

text \<open>\<open>disconnect\<close>, lines 52 to 55: the call is made only when \<open>self.client\<close> is set.\<close>

definition disconnect :: "service \<Rightarrow> bool \<Rightarrow> exn option \<times> call list" where
  "disconnect tg has_client = (if has_client then (tl_disconnect tg, [Disconnect]) else (None, []))"

record args =
  a_auth :: bool
  a_search :: "string option"
  a_chat_id :: "int option"
  a_scrape_saved :: "string option"
  a_whoami :: bool
  a_api_id :: "int option"
  a_api_hash :: "string option"

definition nonempty :: "string option \<Rightarrow> bool" where
  "nonempty v = (case v of None \<Rightarrow> False | Some t \<Rightarrow> t \<noteq> [])"

text \<open>
  The branches of the dispatch, lines 217 to 239, after a successful \<open>connect\<close>: the
  exception raised if any, the library calls and the output.
\<close>

definition dispatch :: "service \<Rightarrow> string \<Rightarrow> args \<Rightarrow> exn option \<times> call list \<times> printed list" where
  "dispatch tg session_name a =
     (if a_auth a then
        (case get_me tg of
           (Inl x, calls) \<Rightarrow> (Some x, calls, [])
         | (Inr me, calls) \<Rightarrow> (None, calls, [Json (Authenticated me (session_name @ ''.session''))]))
      else if a_whoami a then
        (case get_me tg of
           (Inl x, calls) \<Rightarrow> (Some x, calls, [])
         | (Inr me, calls) \<Rightarrow> (None, calls, [Json (UserInfo me)]))
      else if nonempty (a_search a) then
        (case search_global tg (case a_search a of Some q \<Rightarrow> q | None \<Rightarrow> []) (a_chat_id a) of
           (Inl x, calls) \<Rightarrow> (Some x, calls, [])
         | (Inr env, calls) \<Rightarrow> (None, calls, [Json (SearchResults env)]))
      else if nonempty (a_scrape_saved a) then
        (case scrape_saved_messages tg (case a_scrape_saved a of Some d \<Rightarrow> d | None \<Rightarrow> []) of
           (Inl x, calls) \<Rightarrow> (Some x, calls, [])
         | (Inr env, calls) \<Rightarrow> (None, calls, [Json (ScrapeResults env)]))
      else (None, [], [Help]))"

text \<open>How the process ends: \<open>main\<close> returns, \<open>sys.exit\<close>, or an exception leaves \<open>main\<close>.\<close>

datatype ending = Returned | Exit int | Uncaught exn

text \<open>
  The \<open>try\<close> block, lines 215 to 239: whether \<open>self.client\<close> got assigned, the exception
  that left the block if one did, the library calls and the output.
\<close>

definition try_block :: "service \<Rightarrow> args \<Rightarrow> bool \<times> exn option \<times> call list \<times> printed list" where
  "try_block tg a =
     (case connect tg of
        (has_client, Some x, calls, out) \<Rightarrow> (has_client, Some x, calls, out)
      | (has_client, None, calls, out) \<Rightarrow>
          (case dispatch tg ''anon'' a of
             (r, calls', out') \<Rightarrow> (has_client, r, calls @ calls', out @ out')))"

text \<open>
  The handlers, lines 241 to 249: \<open>KeyboardInterrupt\<close> exits with 0, an \<open>Exception\<close> is
  reported and exits with 1, anything else goes on unhandled.
\<close>

fun handlers :: "exn option \<Rightarrow> ending \<times> printed list" where
  "handlers None = (Returned, [])"
| "handlers (Some KeyboardInterrupt) = (Exit 0, [Line (CHR 0x0A # ''[INFO] Interrupted by user'')])"
| "handlers (Some (Exception cls msg)) = (Exit 1, [Json (ErrorReport msg cls)])"
| "handlers (Some CancelledError) = (Uncaught CancelledError, [])"

text \<open>
  Lines 212 to 251: the \<open>try\<close> block, the handlers and the \<open>finally\<close> clause. An exception
  of \<open>disconnect\<close> in the \<open>finally\<close> clause replaces whatever was pending.
\<close>

definition run_client :: "service \<Rightarrow> args \<Rightarrow> ending \<times> call list \<times> printed list" where
  "run_client tg a =
     (case try_block tg a of
        (has_client, raised, calls, out) \<Rightarrow>
          (case handlers raised of
             (ending, out2) \<Rightarrow>
               (case disconnect tg has_client of
                  (None, calls3) \<Rightarrow> (ending, calls @ calls3, out @ out2)
                | (Some x, calls3) \<Rightarrow> (Uncaught x, calls @ calls3, out @ out2))))"

text \<open>
  The credentials, lines 198 to 210. \<open>args.api_id or os.getenv(...)\<close> is the flag when it
  is a nonzero integer and the environment's string otherwise; \<open>int()\<close> of a string is the
  library's, taken as the parameter \<open>py_int\<close> (\<open>None\<close> is its \<open>ValueError\<close>).
\<close>

datatype cred = FromFlag int | FromEnv string

definition resolve_api_id :: "args \<Rightarrow> string option \<Rightarrow> cred option" where
  "resolve_api_id a env_id =
     (if truthy (a_api_id a) then map_option FromFlag (a_api_id a) else map_option FromEnv env_id)"

definition resolve_api_hash :: "args \<Rightarrow> string option \<Rightarrow> string option" where
  "resolve_api_hash a env_hash = (if nonempty (a_api_hash a) then a_api_hash a else env_hash)"

fun falsy_cred :: "cred option \<Rightarrow> bool" where
  "falsy_cred None = True"
| "falsy_cred (Some (FromFlag i)) = (i = 0)"
| "falsy_cred (Some (FromEnv t)) = (t = [])"

fun int_cred :: "(string \<Rightarrow> int option) \<Rightarrow> cred option \<Rightarrow> int option" where
  "int_cred py_int None = None"
| "int_cred py_int (Some (FromFlag i)) = Some i"
| "int_cred py_int (Some (FromEnv t)) = py_int t"

text \<open>\<open>main\<close> from line 196 on, for parsed arguments \<open>a\<close> and the two environment variables.\<close>

definition main ::
  "(string \<Rightarrow> int option) \<Rightarrow> service \<Rightarrow> args \<Rightarrow> string option \<Rightarrow> string option
    \<Rightarrow> ending \<times> call list \<times> printed list" where
  "main py_int tg a env_id env_hash =
     (let api_id = resolve_api_id a env_id; api_hash = resolve_api_hash a env_hash
      in if falsy_cred api_id \<or> \<not> nonempty api_hash
         then (Exit 1, [],
               [Line ''ERROR: TELEGRAM_API_ID and TELEGRAM_API_HASH must be set'',
                Line ''Set them as environment variables or pass --api-id and --api-hash''])
         else (case int_cred py_int api_id of
                 None \<Rightarrow> (Exit 1, [], [Line ''ERROR: TELEGRAM_API_ID must be an integer''])
               | Some n \<Rightarrow> run_client tg a))"

section \<open>Notions used to state the properties\<close>

text \<open>The items an iterator yields before it raises or is exhausted.\<close>

fun yielded :: "'a step list \<Rightarrow> 'a list" where
  "yielded [] = []"
| "yielded (Raise x # rest) = []"
| "yielded (Yield a # rest) = a # yielded rest"

text \<open>
  A message whose timezone-stripped timestamp is strictly below the instant \<open>s\<close>, and
  one whose timestamp is strictly above the instant \<open>e\<close>.
\<close>

definition below :: "datetime \<Rightarrow> message option \<Rightarrow> bool" where
  "below s mo =
     (case mo of
        None \<Rightarrow> False
      | Some m \<Rightarrow> (case m_date m of None \<Rightarrow> False | Some dt \<Rightarrow> dt_lt (dt\<lparr>tzinfo := None\<rparr>) s))"

definition above :: "datetime \<Rightarrow> message option \<Rightarrow> bool" where
  "above e mo =
     (case mo of
        None \<Rightarrow> False
      | Some m \<Rightarrow> (case m_date m of None \<Rightarrow> False | Some dt \<Rightarrow> dt_lt e (dt\<lparr>tzinfo := None\<rparr>)))"

text \<open>
  The record a message is due: one when it has a timestamp whose timezone-stripped value
  lies in the inclusive window from \<open>s\<close> to \<open>e\<close>, none otherwise.
\<close>

definition emit :: "datetime \<Rightarrow> datetime \<Rightarrow> message option \<Rightarrow> scrape_record option" where
  "emit s e mo =
     (case mo of
        None \<Rightarrow> None
      | Some m \<Rightarrow>
          (case m_date m of
             None \<Rightarrow> None
           | Some dt \<Rightarrow>
               if dt_le s (dt\<lparr>tzinfo := None\<rparr>) \<and> dt_le (dt\<lparr>tzinfo := None\<rparr>) e
               then Some (scrape_record_of m dt) else None))"

definition emitted :: "datetime \<Rightarrow> datetime \<Rightarrow> message option list \<Rightarrow> scrape_record list" where
  "emitted s e mos = List.map_filter (emit s e) mos"

text \<open>
  What a scrape with window start \<open>s\<close> consumes of an iterator, read off the iterator
  alone: the messages it yields up to and including the first one below \<open>s\<close>, or up to
  its end or the point where it raises; and the exception met on that way, if any.
\<close>

fun consumed :: "datetime \<Rightarrow> message option step list \<Rightarrow> message option list" where
  "consumed s [] = []"
| "consumed s (Raise x # rest) = []"
| "consumed s (Yield mo # rest) = (if below s mo then [mo] else mo # consumed s rest)"

fun interrupted :: "datetime \<Rightarrow> message option step list \<Rightarrow> exn option" where
  "interrupted s [] = None"
| "interrupted s (Raise x # rest) = Some x"
| "interrupted s (Yield mo # rest) = (if below s mo then None else interrupted s rest)"

text \<open>The exception that ends an iterator, if one does.\<close>

fun raised :: "'a step list \<Rightarrow> exn option" where
  "raised [] = None"
| "raised (Raise x # rest) = Some x"
| "raised (Yield a # rest) = raised rest"

text \<open>The iterator a search of dialog \<open>d\<close> for \<open>query\<close> gets from the library.\<close>

definition found_in :: "service \<Rightarrow> string \<Rightarrow> dialog \<Rightarrow> message option step list" where
  "found_in tg query d = tl_iter_messages tg (Entity (d_entity d)) (Some query) (Some 100)"

text \<open>
  The records due to a list of messages of dialog \<open>d\<close>: one for each message that has a
  nonempty text, and over the dialogs \<open>ds\<close> the records of what each one's search yields
  until it raises or ends.
\<close>

definition matches :: "dialog \<Rightarrow> message option list \<Rightarrow> match_record list" where
  "matches d mos = concat (map (\<lambda>mo. search_append d mo []) mos)"

definition collected :: "service \<Rightarrow> string \<Rightarrow> dialog list \<Rightarrow> match_record list" where
  "collected tg query ds = concat (map (\<lambda>d. matches d (yielded (found_in tg query d))) ds)"

text \<open>The dialogs a search scans, given all dialogs and the target.\<close>

definition selected :: "dialog list \<Rightarrow> int option \<Rightarrow> dialog list" where
  "selected ds chat_id =
     (if truthy chat_id then filter (\<lambda>d. Some (d_id d) = chat_id) ds else ds)"

text \<open>
  Following the specification's wording of the resilience property: the records of the
  conversations whose search does not fail, in listing order.
\<close>

definition non_failing_matches :: "service \<Rightarrow> string \<Rightarrow> dialog list \<Rightarrow> match_record list" where
  "non_failing_matches tg query ds =
     collected tg query (filter (\<lambda>d. raised (found_in tg query d) = None) ds)"


text \<open>The results of the envelope a method returned, none when an exception left it.\<close>

definition results_of :: "(exn + 'r envelope) \<times> call list \<Rightarrow> 'r list" where
  "results_of run =
     (case fst run of
        Inr (ResultEnvelope k rs n) \<Rightarrow> rs
      | Inr (ErrorEnvelope e rs) \<Rightarrow> rs
      | Inl x \<Rightarrow> [])"

text \<open>The library calls of a run of \<open>main\<close>.\<close>

definition calls_of :: "ending \<times> call list \<times> printed list \<Rightarrow> call list" where
  "calls_of run = fst (snd run)"

text \<open>The credentials are there and \<open>int()\<close> accepts the id: the run gets to line 212.\<close>

definition has_credentials ::
  "(string \<Rightarrow> int option) \<Rightarrow> args \<Rightarrow> string option \<Rightarrow> string option \<Rightarrow> bool" where
  "has_credentials py_int a env_id env_hash =
     (\<not> falsy_cred (resolve_api_id a env_id) \<and> nonempty (resolve_api_hash a env_hash)
      \<and> int_cred py_int (resolve_api_id a env_id) \<noteq> None)"

section \<open>A test double\<close>

definition utc :: "nat \<Rightarrow> nat \<Rightarrow> nat \<Rightarrow> nat \<Rightarrow> nat \<Rightarrow> nat \<Rightarrow> nat \<Rightarrow> datetime" where
  "utc y mo d h mi s us =
     \<lparr>year = y, month = mo, day = d, hour = h, minute = mi, second = s, microsecond = us,
      tzinfo = Some 0\<rparr>"

definition memo :: "int \<Rightarrow> datetime \<Rightarrow> message" where
  "memo i dt =
     \<lparr>m_id = i, m_text = Some ''memo'', m_date = Some dt, m_sender_id = Some 7, m_out = True,
      m_media = None\<rparr>"

definition myself :: user where
  "myself =
     \<lparr>u_id = 7, u_first_name = Some ''Ada'', u_last_name = None, u_username = None,
      u_phone = None\<rparr>"

text \<open>
  A client whose dialogs are \<open>ds\<close>, whose searches answer \<open>found\<close> by entity, and whose
  self-archive iterates as \<open>saved\<close>; nothing else fails.
\<close>

definition double ::
  "dialog list \<Rightarrow> (nat \<Rightarrow> message option step list) \<Rightarrow> message option step list \<Rightarrow> service" where
  "double ds found saved =
     \<lparr>tl_new = None, tl_session_exists = True, tl_start = None, tl_get_dialogs = Inr ds,
      tl_iter_messages = (\<lambda>p search limit. case p of Entity h \<Rightarrow> found h | PeerId i \<Rightarrow> saved),
      tl_get_me = Inr (Some myself), tl_disconnect = None\<rparr>"

text \<open>
  The archive of the early-exit scenario, newest first: the day after, the day's last
  and first microsecond, and two messages of the day before.
\<close>

definition archive :: "message option step list" where
  "archive =
     [Yield (Some (memo 5 (utc 2024 1 16 8 0 0 0))),
      Yield (Some (memo 4 (utc 2024 1 15 23 59 59 999999))),
      Yield (Some (memo 3 (utc 2024 1 15 0 0 0 0))),
      Yield (Some (memo 2 (utc 2024 1 14 23 59 59 999999))),
      Yield (Some (memo 1 (utc 2024 1 14 9 30 0 0)))]"

text \<open>
  Three conversations; the search of the second yields one match and then fails, as a
  paged search does when a later page is refused. The self-archive is \<open>archive\<close>.
\<close>

definition chat :: "int \<Rightarrow> dialog" where
  "chat i = \<lparr>d_id = i, d_title = Some ''Team'', d_entity = nat i\<rparr>"

definition hit :: "int \<Rightarrow> message" where
  "hit i =
     \<lparr>m_id = i, m_text = Some ''budget'', m_date = None, m_sender_id = None, m_out = False,
      m_media = None\<rparr>"

definition three_chats :: service where
  "three_chats =
     double [chat 1, chat 2, chat 3]
       (\<lambda>h. if h = 2 then [Yield (Some (hit 20)), Raise (Exception ''RPCError'' ''refused'')]
            else [Yield (Some (hit (10 * int h)))])
       archive"

definition hit_record :: "int \<Rightarrow> int \<Rightarrow> match_record" where
  "hit_record c i =
     \<lparr>mr_chat_id = c, mr_chat_title = ''Team'', mr_message_id = i, mr_text = ''budget'',
      mr_date = None, mr_sender_id = None\<rparr>"

text \<open>Command lines, with the credentials given as flags.\<close>

definition flags :: args where
  "flags =
     \<lparr>a_auth = False, a_search = None, a_chat_id = None, a_scrape_saved = None,
      a_whoami = False, a_api_id = Some 12345, a_api_hash = Some ''0123abcd''\<rparr>"

text \<open>A client whose session file is locked: creating it raises.\<close>

definition locked :: service where
  "locked = three_chats\<lparr>tl_new := Some (Exception ''OperationalError'' ''database is locked'')\<rparr>"

section \<open>Lemmas on the comparison of datetimes\<close>

lemma tuple_lt_irrefl: "\<not> tuple_lt xs xs"
  by (induction xs) auto

lemma tuple_lt_asym: "tuple_lt xs ys \<Longrightarrow> \<not> tuple_lt ys xs"
  by (induction xs ys rule: tuple_lt.induct) auto

lemma dt_lt_not_le: "dt_lt a b \<Longrightarrow> \<not> dt_le b a"
  unfolding dt_lt_def dt_le_def using tuple_lt_irrefl tuple_lt_asym by metis

lemma below_emit: "below s mo \<Longrightarrow> emit s e mo = None"
  by (auto simp: below_def emit_def dest: dt_lt_not_le split: option.splits)

lemma above_emit: "above e mo \<Longrightarrow> emit s e mo = None"
  by (auto simp: above_def emit_def dest: dt_lt_not_le split: option.splits)

lemma emitted_Nil: "emitted s e [] = []"
  by (simp add: emitted_def map_filter_simps)

lemma emitted_Cons:
  "emitted s e (mo # mos) = (case emit s e mo of None \<Rightarrow> [] | Some r \<Rightarrow> [r]) @ emitted s e mos"
  by (simp add: emitted_def map_filter_simps split: option.splits)

section \<open>The scrape loop\<close>

lemma scrape_loop_step:
  "\<not> below s mo \<Longrightarrow>
   scrape_loop s e (Yield mo # st) rs =
     pulled (scrape_loop s e st (rs @ (case emit s e mo of None \<Rightarrow> [] | Some r \<Rightarrow> [r])))"
  by (cases mo) (auto simp: below_def emit_def Let_def split: option.splits)

lemma scrape_loop_break:
  "below s mo \<Longrightarrow> scrape_loop s e (Yield mo # st) rs = (Inr rs, 1)"
  by (cases mo) (auto simp: below_def Let_def dest: dt_lt_not_le split: option.splits)

text \<open>A prefix of yielded messages none of which is below the window is passed over.\<close>

lemma scrape_loop_prefix:
  "\<forall>mo \<in> set pre. \<not> below s mo \<Longrightarrow>
   scrape_loop s e (map Yield pre @ st) rs =
     (fst (scrape_loop s e st (rs @ emitted s e pre)),
      length pre + snd (scrape_loop s e st (rs @ emitted s e pre)))"
proof (induction pre arbitrary: rs)
  case Nil
  then show ?case by (simp add: emitted_Nil)
next
  case (Cons mo pre)
  then show ?case
    by (simp add: scrape_loop_step emitted_Cons pulled_def)
qed

text \<open>A loop that ends without an exception has emitted for exactly what it consumed.\<close>

lemma scrape_loop_success:
  "scrape_loop s e st rs = (Inr rs', n) \<Longrightarrow> rs' = rs @ emitted s e (yielded (take n st))"
proof (induction st arbitrary: rs n)
  case Nil
  then show ?case by (simp add: emitted_Nil)
next
  case (Cons a st)
  show ?case
  proof (cases a)
    case (Raise x)
    with Cons.prems show ?thesis by simp
  next
    case (Yield mo)
    show ?thesis
    proof (cases "below s mo")
      case True
      with Cons.prems Yield show ?thesis
        by (auto simp: scrape_loop_break emitted_Cons emitted_Nil below_emit)
    next
      case False
      with Cons.prems Yield obtain k where k: "n = Suc k"
        and run: "scrape_loop s e st (rs @ (case emit s e mo of None \<Rightarrow> [] | Some r \<Rightarrow> [r])) = (Inr rs', k)"
        by (auto simp: scrape_loop_step pulled_def prod_eq_iff)
      from Cons.IH[OF run] k Yield show ?thesis
        by (simp add: emitted_Cons)
    qed
  qed
qed

lemma parse_day:
  "strptime ''2024-01-15'' =
     Some \<lparr>year = 2024, month = 1, day = 15, hour = 0, minute = 0, second = 0,
           microsecond = 0, tzinfo = None\<rparr>"
  by (simp add: strptime_def match_m_then_def match_d_def digit_of_def digit_val_def
      make_date_def days_in_month_def is_leap_def)

section \<open>Claims on \<open>scrape_saved_messages\<close>\<close>

text \<open>
  C1. Whatever the archive's iterator yields, the scrape stops at the first message whose
  timezone-stripped timestamp is strictly below the window start: when the iterator yields
  the messages \<open>pre\<close>, none of them below the start, and then such a message \<open>m\<close>, the call
  succeeds, its results are the records of the messages of \<open>pre\<close> in the window, it makes
  one \<open>__anext__\<close> call for each message of \<open>pre\<close> and one for \<open>m\<close> and none for what
  follows \<open>m\<close>, and \<open>m\<close> gets no record. A message of \<open>pre\<close> above the window end gets no
  record either, and the loop goes on past it.
\<close>

theorem scrape_stops_below_window:
  assumes parsed: "strptime target_date = Some d"
    and me: "tl_get_me tg = Inr (Some me)"
    and stream: "tl_iter_messages tg (PeerId (u_id me)) None None
                   = map Yield pre @ Yield (Some m) # rest"
    and pre: "\<forall>mo \<in> set pre. \<not> below (start_of_day d) mo"
    and m: "below (start_of_day d) (Some m)"
  shows "scrape_saved_messages tg target_date =
           (Inr (ResultEnvelope target_date
                   (emitted (start_of_day d) (end_of_day d) pre)
                   (int (length (emitted (start_of_day d) (end_of_day d) pre)))),
            GetMe # IterMessages (PeerId (u_id me)) None None
              # replicate (Suc (length pre)) Next)
         \<and> emit (start_of_day d) (end_of_day d) (Some m) = None
         \<and> (\<forall>mo \<in> set pre. above (end_of_day d) mo
               \<longrightarrow> emit (start_of_day d) (end_of_day d) mo = None)"
proof -
  have "scrape_loop (start_of_day d) (end_of_day d) (map Yield pre @ Yield (Some m) # rest) []
          = (Inr (emitted (start_of_day d) (end_of_day d) pre), Suc (length pre))"
    using pre m by (simp add: scrape_loop_prefix scrape_loop_break del: scrape_loop.simps)
  then have "scrape_saved_messages tg target_date =
           (Inr (ResultEnvelope target_date
                   (emitted (start_of_day d) (end_of_day d) pre)
                   (int (length (emitted (start_of_day d) (end_of_day d) pre)))),
            GetMe # IterMessages (PeerId (u_id me)) None None
              # replicate (Suc (length pre)) Next)"
    using parsed me stream by (simp add: scrape_saved_messages_def)
  moreover have "emit (start_of_day d) (end_of_day d) (Some m) = None"
    using m by (rule below_emit)
  moreover have "\<forall>mo \<in> set pre. above (end_of_day d) mo
               \<longrightarrow> emit (start_of_day d) (end_of_day d) mo = None"
    by (simp add: above_emit)
  ultimately show ?thesis by blast
qed

text \<open>
  The scenario of the specification: of the five messages the two of the day are
  returned, and four \<open>__anext__\<close> calls are made, the last for the first message of the
  day before.
\<close>

theorem scrape_stops_below_window_witness:
  "scrape_saved_messages (double [] (\<lambda>h. []) archive) ''2024-01-15'' =
     (Inr (ResultEnvelope ''2024-01-15''
        [\<lparr>sr_message_id = 4, sr_text = ''memo'', sr_date = ''2024-01-15T23:59:59.999999+00:00'',
          sr_is_read = False, sr_media_type = None\<rparr>,
         \<lparr>sr_message_id = 3, sr_text = ''memo'', sr_date = ''2024-01-15T00:00:00+00:00'',
          sr_is_read = False, sr_media_type = None\<rparr>] 2),
      [GetMe, IterMessages (PeerId 7) None None, Next, Next, Next, Next])"
  using scrape_stops_below_window [of "''2024-01-15''" _ "double [] (\<lambda>h. []) archive" myself
      "[Some (memo 5 (utc 2024 1 16 8 0 0 0)), Some (memo 4 (utc 2024 1 15 23 59 59 999999)),
        Some (memo 3 (utc 2024 1 15 0 0 0 0))]"
      "memo 2 (utc 2024 1 14 23 59 59 999999)"
      "[Yield (Some (memo 1 (utc 2024 1 14 9 30 0 0)))]", OF parse_day]
  by (simp add: start_of_day_def end_of_day_def below_def above_def emit_def emitted_def
      map_filter_simps dt_lt_def dt_le_def dt_fields_def utc_def memo_def myself_def double_def
      archive_def scrape_record_of_def isoformat_def zpad_def digit_char_def str_nat.simps)

lemma count_list_replicate: "count_list (replicate n x) x = n"
  by (induction n) auto

lemma dt_le_refl: "dt_le a a"
  by (simp add: dt_le_def)

lemma start_le_end: "dt_le (start_of_day d) (end_of_day d)"
  by (simp add: dt_le_def dt_fields_def start_of_day_def end_of_day_def)

text \<open>What a successful scrape returns, and from what.\<close>

lemma scrape_success:
  assumes ok: "scrape_saved_messages tg target_date = (Inr (ResultEnvelope k rs n), calls)"
  shows "\<exists>d me. strptime target_date = Some d \<and> tl_get_me tg = Inr (Some me)
           \<and> k = target_date \<and> n = int (length rs)
           \<and> rs = emitted (start_of_day d) (end_of_day d)
                    (yielded (take (count_list calls Next)
                       (tl_iter_messages tg (PeerId (u_id me)) None None)))"
proof -
  from ok obtain d where d: "strptime target_date = Some d"
    by (auto simp: scrape_saved_messages_def split: option.splits)
  from ok d obtain me where me: "tl_get_me tg = Inr (Some me)"
    by (auto simp: scrape_saved_messages_def split: option.splits sum.splits)
  let ?st = "tl_iter_messages tg (PeerId (u_id me)) None None"
  obtain r j where loop: "scrape_loop (start_of_day d) (end_of_day d) ?st [] = (r, j)"
    by (cases "scrape_loop (start_of_day d) (end_of_day d) ?st []") auto
  from ok d me loop have r: "r = Inr rs" and k: "k = target_date" and n: "n = int (length rs)"
    and calls: "calls = GetMe # IterMessages (PeerId (u_id me)) None None # replicate j Next"
    by (auto simp: scrape_saved_messages_def Let_def split: sum.splits if_splits)
  from calls have j: "count_list calls Next = j"
    by (simp add: count_list_replicate)
  from loop r have "rs = [] @ emitted (start_of_day d) (end_of_day d) (yielded (take j ?st))"
    by (intro scrape_loop_success) simp
  with j have "rs = emitted (start_of_day d) (end_of_day d)
                    (yielded (take (count_list calls Next) ?st))"
    by simp
  with d me k n show ?thesis by blast
qed

text \<open>The loop against the iterator alone: what it returns and how far it reads.\<close>

lemma scrape_loop_result:
  "fst (scrape_loop s e st rs) =
     (case interrupted s st of
        None \<Rightarrow> Inr (rs @ emitted s e (consumed s st))
      | Some x \<Rightarrow> Inl x)"
proof (induction st arbitrary: rs)
  case Nil
  show ?case by (simp add: emitted_Nil)
next
  case (Cons a st)
  show ?case
  proof (cases a)
    case (Raise x)
    then show ?thesis by simp
  next
    case (Yield mo)
    show ?thesis
    proof (cases "below s mo")
      case True
      with Yield show ?thesis
        by (simp add: scrape_loop_break emitted_Cons emitted_Nil below_emit
            del: scrape_loop.simps)
    next
      case False
      with Yield Cons.IH show ?thesis
        by (simp add: scrape_loop_step emitted_Cons pulled_def del: scrape_loop.simps
            split: option.splits)
    qed
  qed
qed

lemma scrape_loop_reads:
  "interrupted s st = None \<Longrightarrow> yielded (take (snd (scrape_loop s e st rs)) st) = consumed s st"
proof (induction st arbitrary: rs)
  case Nil
  show ?case by simp
next
  case (Cons a st)
  show ?case
  proof (cases a)
    case (Raise x)
    with Cons.prems show ?thesis by simp
  next
    case (Yield mo)
    show ?thesis
    proof (cases "below s mo")
      case True
      with Yield show ?thesis
        by (simp add: scrape_loop_break del: scrape_loop.simps)
    next
      case False
      with Yield Cons.prems Cons.IH show ?thesis
        by (simp add: scrape_loop_step pulled_def del: scrape_loop.simps)
    qed
  qed
qed

lemma emitted_member:
  "mo \<in> set mos \<Longrightarrow> emit s e mo = Some r \<Longrightarrow> r \<in> set (emitted s e mos)"
proof (induction mos)
  case Nil
  then show ?case by simp
next
  case (Cons a mos)
  then show ?case
    by (auto simp: emitted_Cons split: option.splits)
qed

lemma emit_at_bounds:
  "m_date m = Some dt \<Longrightarrow>
   dt\<lparr>tzinfo := None\<rparr> = start_of_day d \<or> dt\<lparr>tzinfo := None\<rparr> = end_of_day d \<Longrightarrow>
   emit (start_of_day d) (end_of_day d) (Some m) = Some (scrape_record_of m dt)"
  by (auto simp: emit_def dt_le_refl start_le_end)

lemma scrape_run:
  assumes d: "strptime target_date = Some d" and me: "tl_get_me tg = Inr (Some me)"
  shows "scrape_saved_messages tg target_date =
           (let st = tl_iter_messages tg (PeerId (u_id me)) None None;
                calls = GetMe # IterMessages (PeerId (u_id me)) None None
                          # replicate (snd (scrape_loop (start_of_day d) (end_of_day d) st [])) Next
            in case fst (scrape_loop (start_of_day d) (end_of_day d) st []) of
                 Inr rs \<Rightarrow> (Inr (ResultEnvelope target_date rs (int (length rs))), calls)
               | Inl x \<Rightarrow>
                   if is_Exception x
                   then (Inr (ErrorEnvelope (''Failed to scrape Saved Messages: '' @ str_exn x) []),
                         calls)
                   else (Inl x, calls))"
  using d me
  by (cases "scrape_loop (start_of_day d) (end_of_day d)
               (tl_iter_messages tg (PeerId (u_id me)) None None) []")
     (simp add: scrape_saved_messages_def Let_def split: sum.splits)

text \<open>
  C2. A successful scrape returns a record exactly for the consumed messages that have a
  timestamp whose timezone-stripped value lies in the inclusive window from 00:00:00.000000
  to 23:59:59.999999 of the parsed date. The consumed messages are fixed by the iterator
  alone: those it yields up to and including the first one below the window start, or all
  of them when there is none. A scrape whose iterator raises nothing on that way succeeds,
  with as many \<open>__anext__\<close> calls as it takes to read them; the results of a successful
  scrape are \<open>emitted\<close> over the consumed messages; and a consumed message timestamped
  exactly at the start or exactly at the end of the day has its record among the results.
\<close>

theorem scrape_results_are_window:
  "(\<forall>d me. strptime target_date = Some d \<and> tl_get_me tg = Inr (Some me)
        \<and> interrupted (start_of_day d) (tl_iter_messages tg (PeerId (u_id me)) None None) = None
      \<longrightarrow> (\<exists>calls. scrape_saved_messages tg target_date =
              (Inr (ResultEnvelope target_date
                      (emitted (start_of_day d) (end_of_day d)
                         (consumed (start_of_day d)
                            (tl_iter_messages tg (PeerId (u_id me)) None None)))
                      (int (length
                         (emitted (start_of_day d) (end_of_day d)
                            (consumed (start_of_day d)
                               (tl_iter_messages tg (PeerId (u_id me)) None None)))))),
               calls)
            \<and> yielded (take (count_list calls Next)
                          (tl_iter_messages tg (PeerId (u_id me)) None None))
                = consumed (start_of_day d) (tl_iter_messages tg (PeerId (u_id me)) None None)))
   \<and> (\<forall>k rs n calls. scrape_saved_messages tg target_date = (Inr (ResultEnvelope k rs n), calls)
      \<longrightarrow> (\<exists>d me. strptime target_date = Some d \<and> tl_get_me tg = Inr (Some me)
            \<and> interrupted (start_of_day d) (tl_iter_messages tg (PeerId (u_id me)) None None)
                = None
            \<and> rs = emitted (start_of_day d) (end_of_day d)
                     (consumed (start_of_day d)
                        (tl_iter_messages tg (PeerId (u_id me)) None None))
            \<and> (\<forall>m dt. Some m \<in> set (consumed (start_of_day d)
                                      (tl_iter_messages tg (PeerId (u_id me)) None None))
                  \<and> m_date m = Some dt
                  \<and> (dt\<lparr>tzinfo := None\<rparr> = start_of_day d \<or> dt\<lparr>tzinfo := None\<rparr> = end_of_day d)
                  \<longrightarrow> scrape_record_of m dt \<in> set rs)))"
proof (intro conjI allI impI)
  fix d and me :: user
  let ?st = "tl_iter_messages tg (PeerId (u_id me)) None None"
  let ?s = "start_of_day d" and ?e = "end_of_day d"
  assume h: "strptime target_date = Some d \<and> tl_get_me tg = Inr (Some me)
               \<and> interrupted ?s ?st = None"
  then have d: "strptime target_date = Some d" and me: "tl_get_me tg = Inr (Some me)"
    and quiet: "interrupted ?s ?st = None"
    by simp_all
  let ?calls = "GetMe # IterMessages (PeerId (u_id me)) None None
                  # replicate (snd (scrape_loop ?s ?e ?st [])) Next"
  from quiet have "fst (scrape_loop ?s ?e ?st []) = Inr (emitted ?s ?e (consumed ?s ?st))"
    by (simp add: scrape_loop_result)
  then have run: "scrape_saved_messages tg target_date =
      (Inr (ResultEnvelope target_date (emitted ?s ?e (consumed ?s ?st))
              (int (length (emitted ?s ?e (consumed ?s ?st))))), ?calls)"
    by (simp add: scrape_run [OF d me] Let_def)
  have "count_list ?calls Next = snd (scrape_loop ?s ?e ?st [])"
    by (simp add: count_list_replicate)
  with scrape_loop_reads [OF quiet, of ?e "[]"]
  have "yielded (take (count_list ?calls Next) ?st) = consumed ?s ?st"
    by simp
  with run show "\<exists>calls. scrape_saved_messages tg target_date =
      (Inr (ResultEnvelope target_date (emitted ?s ?e (consumed ?s ?st))
              (int (length (emitted ?s ?e (consumed ?s ?st))))), calls)
      \<and> yielded (take (count_list calls Next) ?st) = consumed ?s ?st"
    by blast
next
  fix k rs n calls
  assume ok: "scrape_saved_messages tg target_date = (Inr (ResultEnvelope k rs n), calls)"
  from scrape_success [OF ok] obtain d me where d: "strptime target_date = Some d"
    and me: "tl_get_me tg = Inr (Some me)"
    by blast
  let ?st = "tl_iter_messages tg (PeerId (u_id me)) None None"
  let ?s = "start_of_day d" and ?e = "end_of_day d"
  from ok have loop: "fst (scrape_loop ?s ?e ?st []) = Inr rs"
    unfolding scrape_run [OF d me]
    by (auto simp: Let_def split: sum.splits if_splits)
  then have quiet: "interrupted ?s ?st = None" and rs: "rs = emitted ?s ?e (consumed ?s ?st)"
    by (auto simp: scrape_loop_result split: option.splits)
  have edge: "\<forall>m dt. Some m \<in> set (consumed ?s ?st) \<and> m_date m = Some dt
                  \<and> (dt\<lparr>tzinfo := None\<rparr> = ?s \<or> dt\<lparr>tzinfo := None\<rparr> = ?e)
                  \<longrightarrow> scrape_record_of m dt \<in> set rs"
    unfolding rs by (blast intro: emitted_member emit_at_bounds)
  from d me quiet rs edge
  show "\<exists>d me. strptime target_date = Some d \<and> tl_get_me tg = Inr (Some me)
            \<and> interrupted (start_of_day d) (tl_iter_messages tg (PeerId (u_id me)) None None)
                = None
            \<and> rs = emitted (start_of_day d) (end_of_day d)
                     (consumed (start_of_day d)
                        (tl_iter_messages tg (PeerId (u_id me)) None None))
            \<and> (\<forall>m dt. Some m \<in> set (consumed (start_of_day d)
                                      (tl_iter_messages tg (PeerId (u_id me)) None None))
                  \<and> m_date m = Some dt
                  \<and> (dt\<lparr>tzinfo := None\<rparr> = start_of_day d \<or> dt\<lparr>tzinfo := None\<rparr> = end_of_day d)
                  \<longrightarrow> scrape_record_of m dt \<in> set rs)"
    by blast
qed

lemma archive_run:
  "scrape_saved_messages (double [] (\<lambda>h. []) archive) ''2024-01-15'' =
     (Inr (ResultEnvelope ''2024-01-15''
        [\<lparr>sr_message_id = 4, sr_text = ''memo'', sr_date = ''2024-01-15T23:59:59.999999+00:00'',
          sr_is_read = False, sr_media_type = None\<rparr>,
         \<lparr>sr_message_id = 3, sr_text = ''memo'', sr_date = ''2024-01-15T00:00:00+00:00'',
          sr_is_read = False, sr_media_type = None\<rparr>] 2),
      [GetMe, IterMessages (PeerId 7) None None, Next, Next, Next, Next])"
  by (simp add: scrape_saved_messages_def parse_day start_of_day_def end_of_day_def pulled_def
      dt_lt_def dt_le_def dt_fields_def utc_def memo_def myself_def double_def
      archive_def scrape_record_of_def isoformat_def zpad_def digit_char_def str_nat.simps)

lemma archive_consumed:
  "consumed (start_of_day (utc 2024 1 15 0 0 0 0\<lparr>tzinfo := None\<rparr>)) archive =
     [Some (memo 5 (utc 2024 1 16 8 0 0 0)), Some (memo 4 (utc 2024 1 15 23 59 59 999999)),
      Some (memo 3 (utc 2024 1 15 0 0 0 0)), Some (memo 2 (utc 2024 1 14 23 59 59 999999))]"
  by (simp add: archive_def below_def start_of_day_def dt_lt_def dt_fields_def utc_def memo_def)

lemma archive_quiet:
  "interrupted (start_of_day (utc 2024 1 15 0 0 0 0\<lparr>tzinfo := None\<rparr>)) archive = None"
  by (simp add: archive_def below_def start_of_day_def dt_lt_def dt_fields_def utc_def memo_def)

text \<open>
  On the archive of five messages, for the day of its second and third: the iterator
  alone fixes the first four as consumed, the scrape returns the records of the second
  and third, timestamped at the last and at the first microsecond of the day, and the
  records of both are among its results.
\<close>

theorem scrape_results_are_window_witness:
  "fst (scrape_saved_messages (double [] (\<lambda>h. []) archive) ''2024-01-15'') =
     Inr (ResultEnvelope ''2024-01-15''
        (emitted (start_of_day (utc 2024 1 15 0 0 0 0\<lparr>tzinfo := None\<rparr>))
           (end_of_day (utc 2024 1 15 0 0 0 0\<lparr>tzinfo := None\<rparr>))
           [Some (memo 5 (utc 2024 1 16 8 0 0 0)), Some (memo 4 (utc 2024 1 15 23 59 59 999999)),
            Some (memo 3 (utc 2024 1 15 0 0 0 0)), Some (memo 2 (utc 2024 1 14 23 59 59 999999))])
        2)
   \<and> results_of (scrape_saved_messages (double [] (\<lambda>h. []) archive) ''2024-01-15'') =
      [\<lparr>sr_message_id = 4, sr_text = ''memo'', sr_date = ''2024-01-15T23:59:59.999999+00:00'',
        sr_is_read = False, sr_media_type = None\<rparr>,
       \<lparr>sr_message_id = 3, sr_text = ''memo'', sr_date = ''2024-01-15T00:00:00+00:00'',
        sr_is_read = False, sr_media_type = None\<rparr>]
   \<and> scrape_record_of (memo 4 (utc 2024 1 15 23 59 59 999999)) (utc 2024 1 15 23 59 59 999999)
       \<in> set (results_of (scrape_saved_messages (double [] (\<lambda>h. []) archive) ''2024-01-15''))
   \<and> scrape_record_of (memo 3 (utc 2024 1 15 0 0 0 0)) (utc 2024 1 15 0 0 0 0)
       \<in> set (results_of (scrape_saved_messages (double [] (\<lambda>h. []) archive) ''2024-01-15''))"
proof -
  let ?day = "utc 2024 1 15 0 0 0 0\<lparr>tzinfo := None\<rparr>"
  let ?tg = "double [] (\<lambda>h. []) archive"
  let ?rs = "[\<lparr>sr_message_id = 4, sr_text = ''memo'',
               sr_date = ''2024-01-15T23:59:59.999999+00:00'',
               sr_is_read = False, sr_media_type = None\<rparr>,
              \<lparr>sr_message_id = 3, sr_text = ''memo'', sr_date = ''2024-01-15T00:00:00+00:00'',
               sr_is_read = False, sr_media_type = None\<rparr>]"
  note both = scrape_results_are_window [of "''2024-01-15''" ?tg]
  have day: "strptime ''2024-01-15'' = Some ?day"
    by (simp add: parse_day utc_def)
  have me: "tl_get_me ?tg = Inr (Some myself)"
    and st: "tl_iter_messages ?tg (PeerId (u_id myself)) None None = archive"
    by (simp_all add: double_def)
  from both day me st archive_quiet
  obtain calls where run: "scrape_saved_messages ?tg ''2024-01-15'' =
      (Inr (ResultEnvelope ''2024-01-15''
              (emitted (start_of_day ?day) (end_of_day ?day) (consumed (start_of_day ?day) archive))
              (int (length (emitted (start_of_day ?day) (end_of_day ?day)
                              (consumed (start_of_day ?day) archive))))), calls)"
    by (metis (no_types, lifting))
  from both run obtain d me' where d: "strptime ''2024-01-15'' = Some d"
    and me': "tl_get_me ?tg = Inr (Some me')"
    and edge: "\<forall>m dt. Some m \<in> set (consumed (start_of_day d)
                                      (tl_iter_messages ?tg (PeerId (u_id me')) None None))
                  \<and> m_date m = Some dt
                  \<and> (dt\<lparr>tzinfo := None\<rparr> = start_of_day d \<or> dt\<lparr>tzinfo := None\<rparr> = end_of_day d)
                  \<longrightarrow> scrape_record_of m dt
                        \<in> set (emitted (start_of_day ?day) (end_of_day ?day)
                                 (consumed (start_of_day ?day) archive))"
    by (metis (no_types, lifting))
  from d day have dd: "d = ?day" by simp
  from me' me have mm: "me' = myself" by simp
  from run archive_run have rs: "emitted (start_of_day ?day) (end_of_day ?day)
                              (consumed (start_of_day ?day) archive) = ?rs"
    by simp
  have first: "fst (scrape_saved_messages ?tg ''2024-01-15'') =
     Inr (ResultEnvelope ''2024-01-15''
        (emitted (start_of_day ?day) (end_of_day ?day)
           [Some (memo 5 (utc 2024 1 16 8 0 0 0)), Some (memo 4 (utc 2024 1 15 23 59 59 999999)),
            Some (memo 3 (utc 2024 1 15 0 0 0 0)), Some (memo 2 (utc 2024 1 14 23 59 59 999999))])
        2)"
    using run [unfolded archive_consumed] rs [unfolded archive_consumed] by simp
  have res: "results_of (scrape_saved_messages ?tg ''2024-01-15'') = ?rs"
    using run rs by (simp add: results_of_def)
  have last_us: "scrape_record_of (memo 4 (utc 2024 1 15 23 59 59 999999))
                   (utc 2024 1 15 23 59 59 999999) \<in> set ?rs"
    using edge [unfolded dd mm st, unfolded rs, unfolded archive_consumed, rule_format,
        of "memo 4 (utc 2024 1 15 23 59 59 999999)" "utc 2024 1 15 23 59 59 999999"]
    by (simp add: memo_def utc_def end_of_day_def)
  have first_us: "scrape_record_of (memo 3 (utc 2024 1 15 0 0 0 0)) (utc 2024 1 15 0 0 0 0)
                    \<in> set ?rs"
    using edge [unfolded dd mm st, unfolded rs, unfolded archive_consumed, rule_format,
        of "memo 3 (utc 2024 1 15 0 0 0 0)" "utc 2024 1 15 0 0 0 0"]
    by (simp add: memo_def utc_def start_of_day_def)
  from first res last_us first_us show ?thesis by simp
qed

text \<open>
  C3. When the archive's iterator raises an exception (of a class derived from
  \<open>Exception\<close>) after having yielded the messages \<open>pre\<close>, the scrape returns the error
  envelope whose error string ends with the exception's message and whose results are
  empty, whatever records \<open>pre\<close> had produced.
\<close>

theorem scrape_exception_discards:
  assumes parsed: "strptime target_date = Some d"
    and me: "tl_get_me tg = Inr (Some me)"
    and stream: "tl_iter_messages tg (PeerId (u_id me)) None None
                   = map Yield pre @ Raise (Exception cls msg) # rest"
    and pre: "\<forall>mo \<in> set pre. \<not> below (start_of_day d) mo"
  shows "scrape_saved_messages tg target_date =
           (Inr (ErrorEnvelope (''Failed to scrape Saved Messages: '' @ msg) []),
            GetMe # IterMessages (PeerId (u_id me)) None None
              # replicate (Suc (length pre)) Next)"
proof -
  have "scrape_loop (start_of_day d) (end_of_day d)
          (map Yield pre @ Raise (Exception cls msg) # rest) []
          = (Inl (Exception cls msg), Suc (length pre))"
    using pre by (simp add: scrape_loop_prefix)
  then show ?thesis
    using parsed me stream by (simp add: scrape_saved_messages_def)
qed

theorem scrape_exception_discards_witness:
  "scrape_saved_messages
     (double [] (\<lambda>h. []) (take 3 archive @ [Raise (Exception ''FloodWaitError'' ''A wait of 30 seconds is required'')]))
     ''2024-01-15'' =
     (Inr (ErrorEnvelope ''Failed to scrape Saved Messages: A wait of 30 seconds is required'' []),
      [GetMe, IterMessages (PeerId 7) None None, Next, Next, Next, Next])"
  using scrape_exception_discards [of "''2024-01-15''" _
      "double [] (\<lambda>h. []) (take 3 archive @ [Raise (Exception ''FloodWaitError'' ''A wait of 30 seconds is required'')])"
      myself
      "[Some (memo 5 (utc 2024 1 16 8 0 0 0)), Some (memo 4 (utc 2024 1 15 23 59 59 999999)),
        Some (memo 3 (utc 2024 1 15 0 0 0 0))]"
       "''FloodWaitError''" "''A wait of 30 seconds is required''" "[]", OF parse_day]
  by (simp add: start_of_day_def end_of_day_def below_def
      dt_lt_def dt_le_def dt_fields_def utc_def memo_def myself_def double_def
      archive_def)

section \<open>The scan of the dialogs\<close>

lemma search_append_acc: "search_append d mo rs = rs @ search_append d mo []"
  by (simp add: search_append_def split: option.splits)

lemma matches_Cons: "matches d (mo # mos) = search_append d mo [] @ matches d mos"
  by (simp add: matches_def)

lemma search_messages_eq:
  "search_messages d st rs =
     ((raised st, rs @ matches d (yielded st)), Suc (length (yielded st)))"
proof (induction st arbitrary: rs)
  case Nil
  show ?case by (simp add: matches_def)
next
  case (Cons a st)
  show ?case
  proof (cases a)
    case (Yield mo)
    have "search_append d mo rs @ matches d (yielded st)
            = rs @ matches d (mo # yielded st)"
      by (subst search_append_acc) (simp add: matches_Cons)
    with Yield Cons.IH show ?thesis by (simp add: pulled_def)
  next
    case (Raise x)
    then show ?thesis by (simp add: matches_def)
  qed
qed

lemma collected_Cons:
  "collected tg q (d # ds) = matches d (yielded (found_in tg q d)) @ collected tg q ds"
  by (simp add: collected_def)

lemma search_dialogs_success:
  "search_dialogs tg q ds rs calls = (Inr rs', calls') \<Longrightarrow> rs' = rs @ collected tg q ds"
proof (induction ds arbitrary: rs calls)
  case Nil
  then show ?case by (simp add: collected_def)
next
  case (Cons d ds)
  let ?rs = "rs @ matches d (yielded (found_in tg q d))"
  from Cons.prems obtain calls1 where "search_dialogs tg q ds ?rs calls1 = (Inr rs', calls')"
    by (auto simp: search_messages_eq found_in_def Let_def split: option.splits if_splits)
  from Cons.IH[OF this] show ?case by (simp add: collected_Cons)
qed

lemma search_dialogs_total:
  "\<forall>d \<in> set ds. \<forall>x. raised (found_in tg q d) = Some x \<longrightarrow> is_Exception x \<Longrightarrow>
   fst (search_dialogs tg q ds rs calls) = Inr (rs @ collected tg q ds)"
proof (induction ds arbitrary: rs calls)
  case Nil
  then show ?case by (simp add: collected_def)
next
  case (Cons d ds)
  then show ?case
    by (auto simp: search_messages_eq found_in_def [symmetric] Let_def collected_Cons split: option.splits)
qed

lemma search_in_total:
  "\<forall>d \<in> set ds. \<forall>x. raised (found_in tg q d) = Some x \<longrightarrow> is_Exception x \<Longrightarrow>
   fst (search_in tg q ds) = Inr (ResultEnvelope q (collected tg q ds) (int (length (collected tg q ds))))"
  using search_dialogs_total [of ds tg q "[]" "[GetDialogs]"]
  by (auto simp: search_in_def split: prod.splits sum.splits)

lemma search_in_success:
  "search_in tg q ds = (Inr (ResultEnvelope k rs n), calls) \<Longrightarrow>
   k = q \<and> rs = collected tg q ds \<and> n = int (length rs)"
  by (auto simp: search_in_def split: prod.splits sum.splits dest: search_dialogs_success)

lemma search_global_selected:
  "tl_get_dialogs tg = Inr ds \<Longrightarrow> selected ds chat_id \<noteq> [] \<or> \<not> truthy chat_id \<Longrightarrow>
   search_global tg q chat_id = search_in tg q (selected ds chat_id)"
  by (auto simp: search_global_def selected_def Let_def)

section \<open>Claims on \<open>search_global\<close>\<close>

text \<open>
  C4, as amended. When every exception that a scanned conversation's search raises is
  of a class derived from \<open>Exception\<close>, the search returns a success envelope: its results
  are, in listing order, the records of the messages each conversation's search yielded
  before it failed or ended (for a conversation that fails at once, none), and \<open>total\<close> is
  their number. A failure in one conversation does not end the scan.
\<close>

theorem search_keeps_going:
  assumes dialogs: "tl_get_dialogs tg = Inr ds"
    and scanned: "selected ds chat_id \<noteq> [] \<or> \<not> truthy chat_id"
    and caught: "\<forall>d \<in> set (selected ds chat_id).
                   \<forall>x. raised (found_in tg query d) = Some x \<longrightarrow> is_Exception x"
  shows "fst (search_global tg query chat_id) =
           Inr (ResultEnvelope query (collected tg query (selected ds chat_id))
                  (int (length (collected tg query (selected ds chat_id)))))"
  using search_global_selected [OF dialogs scanned] search_in_total [OF caught] by simp

lemma three_chats_run:
  "fst (search_global three_chats ''budget'' None) =
     Inr (ResultEnvelope ''budget'' [hit_record 1 10, hit_record 2 20, hit_record 3 30] 3)"
  by (simp add: search_global_def search_in_def three_chats_def double_def chat_def hit_def
      hit_record_def pulled_def search_append_def match_record_of_def chat_title_def)

lemma three_chats_non_failing:
  "non_failing_matches three_chats ''budget'' [chat 1, chat 2, chat 3] = [hit_record 1 10, hit_record 3 30]"
  by (simp add: non_failing_matches_def collected_def matches_def found_in_def three_chats_def double_def chat_def hit_def
      hit_record_def search_append_def match_record_of_def chat_title_def)

theorem search_keeps_going_witness:
  "fst (search_global three_chats ''budget'' None) =
     Inr (ResultEnvelope ''budget'' [hit_record 1 10, hit_record 2 20, hit_record 3 30] 3)"
  using search_keeps_going [of three_chats "[chat 1, chat 2, chat 3]" None "''budget''"]
  by (simp add: selected_def collected_def matches_def found_in_def three_chats_def double_def chat_def hit_def
      hit_record_def search_append_def match_record_of_def chat_title_def)

text \<open>
  The claim as stated fails where a search fails after it has yielded a match: the
  record of that match stays in the results, which are then not the records of the
  non-failing conversations only.
\<close>

theorem search_partial_counterexample:
  "tl_get_dialogs three_chats = Inr [chat 1, chat 2, chat 3]
   \<and> raised (found_in three_chats ''budget'' (chat 2)) = Some (Exception ''RPCError'' ''refused'')
   \<and> fst (search_global three_chats ''budget'' None) \<noteq>
       Inr (ResultEnvelope ''budget''
              (non_failing_matches three_chats ''budget'' [chat 1, chat 2, chat 3])
              (int (length (non_failing_matches three_chats ''budget'' [chat 1, chat 2, chat 3]))))"
  unfolding three_chats_run three_chats_non_failing
  by (simp add: three_chats_def double_def found_in_def chat_def hit_record_def)

text \<open>
  C5, as amended. For a target conversation id other than 0 that is the id of no known
  conversation, the search returns exactly the envelope with the error
  \<open>Chat ID <id> not found\<close> and empty results, and the listing of the conversations is the
  only library call it makes: no search of a conversation is started.
\<close>

theorem search_unknown_chat:
  assumes dialogs: "tl_get_dialogs tg = Inr ds"
    and nonzero: "c \<noteq> 0"
    and unknown: "\<forall>d \<in> set ds. d_id d \<noteq> c"
  shows "search_global tg query (Some c) =
           (Inr (ErrorEnvelope (''Chat ID '' @ str_int c @ '' not found'') []), [GetDialogs])"
proof -
  from unknown have "filter (\<lambda>dialog. Some (d_id dialog) = Some c) ds = []"
    by (simp add: filter_empty_conv)
  with dialogs nonzero show ?thesis
    by (simp add: search_global_def)
qed

theorem search_unknown_chat_witness:
  "search_global three_chats ''budget'' (Some 4) =
     (Inr (ErrorEnvelope ''Chat ID 4 not found'' []), [GetDialogs])"
  using search_unknown_chat [of three_chats "[chat 1, chat 2, chat 3]" 4 "''budget''"]
  by (simp add: three_chats_def double_def chat_def str_int_def str_nat.simps digit_char_def)

text \<open>
  The claim as stated fails for the target id 0: it is the id of none of the three
  conversations, yet the search reports no error and searches them all.
\<close>

theorem search_chat_zero_counterexample:
  "tl_get_dialogs three_chats = Inr [chat 1, chat 2, chat 3]
   \<and> 0 \<notin> set (map d_id [chat 1, chat 2, chat 3])
   \<and> search_global three_chats ''budget'' (Some 0) \<noteq>
       (Inr (ErrorEnvelope (''Chat ID '' @ str_int 0 @ '' not found'') []), [GetDialogs])
   \<and> IterMessages (Entity 1) (Some ''budget'') (Some 100)
       \<in> set (snd (search_global three_chats ''budget'' (Some 0)))"
  by (simp add: search_global_def search_in_def three_chats_def double_def chat_def hit_def
      pulled_def search_append_def match_record_of_def chat_title_def)

text \<open>
  C10. A search whose target conversation id is 0 does what a search without a target
  does: it scans all the conversations the listing returns, and neither looks for a
  conversation with id 0 nor reports one as not found.
\<close>

theorem search_chat_zero_is_absent:
  "search_global tg query (Some 0) = search_global tg query None
   \<and> (tl_get_dialogs tg = Inr ds \<longrightarrow> search_global tg query (Some 0) = search_in tg query ds)"
  by (simp add: search_global_def)

theorem search_chat_zero_is_absent_witness:
  "search_global three_chats ''budget'' (Some 0) = search_global three_chats ''budget'' None
   \<and> fst (search_global three_chats ''budget'' (Some 0)) =
       Inr (ResultEnvelope ''budget'' [hit_record 1 10, hit_record 2 20, hit_record 3 30] 3)"
  using search_chat_zero_is_absent [of three_chats "''budget''" "[chat 1, chat 2, chat 3]"]
    three_chats_run
  by simp



section \<open>Claims on both envelopes\<close>

lemma search_global_success:
  assumes ok: "search_global tg query chat_id = (Inr (ResultEnvelope k rs n), calls)"
  shows "\<exists>ds. tl_get_dialogs tg = Inr ds \<and> k = query \<and> n = int (length rs)
           \<and> rs = collected tg query (selected ds chat_id)"
proof -
  from ok obtain ds where ds: "tl_get_dialogs tg = Inr ds"
    by (auto simp: search_global_def split: sum.splits if_splits)
  from ok ds have "search_in tg query (selected ds chat_id) = (Inr (ResultEnvelope k rs n), calls)"
    by (auto simp: search_global_def selected_def Let_def split: if_splits)
  from search_in_success [OF this] ds show ?thesis by blast
qed

text \<open>
  C6. In every success envelope of \<open>search_global\<close> and of \<open>scrape_saved_messages\<close> the
  total is the length of the results, and the results are those of this run alone: the
  records collected from what the iterators of this run yielded, with nothing before
  them.
\<close>

theorem total_is_length:
  "(search_global tg query chat_id = (Inr (ResultEnvelope k rs n), calls) \<longrightarrow>
      n = int (length rs)
      \<and> (\<exists>ds. tl_get_dialogs tg = Inr ds \<and> rs = collected tg query (selected ds chat_id)))
   \<and> (scrape_saved_messages tg target_date = (Inr (ResultEnvelope k' rs' n'), calls') \<longrightarrow>
      n' = int (length rs')
      \<and> (\<exists>d me. strptime target_date = Some d \<and> tl_get_me tg = Inr (Some me)
            \<and> rs' = emitted (start_of_day d) (end_of_day d)
                     (yielded (take (count_list calls' Next)
                        (tl_iter_messages tg (PeerId (u_id me)) None None)))))"
proof (intro conjI impI)
  assume ok: "search_global tg query chat_id = (Inr (ResultEnvelope k rs n), calls)"
  from search_global_success [OF ok] show "n = int (length rs)" by blast
  from search_global_success [OF ok]
  show "\<exists>ds. tl_get_dialogs tg = Inr ds \<and> rs = collected tg query (selected ds chat_id)"
    by blast
next
  assume ok: "scrape_saved_messages tg target_date = (Inr (ResultEnvelope k' rs' n'), calls')"
  from scrape_success [OF ok] show "n' = int (length rs')" by blast
  from scrape_success [OF ok]
  show "\<exists>d me. strptime target_date = Some d \<and> tl_get_me tg = Inr (Some me)
            \<and> rs' = emitted (start_of_day d) (end_of_day d)
                     (yielded (take (count_list calls' Next)
                        (tl_iter_messages tg (PeerId (u_id me)) None None)))"
    by blast
qed

lemma three_chats_calls:
  "search_global three_chats ''budget'' None =
     (Inr (ResultEnvelope ''budget'' [hit_record 1 10, hit_record 2 20, hit_record 3 30] 3),
      [GetDialogs,
       IterMessages (Entity 1) (Some ''budget'') (Some 100), Next, Next,
       IterMessages (Entity 2) (Some ''budget'') (Some 100), Next, Next,
       IterMessages (Entity 3) (Some ''budget'') (Some 100), Next, Next])"
  by (simp add: search_global_def search_in_def three_chats_def double_def chat_def hit_def
      hit_record_def pulled_def search_append_def match_record_of_def chat_title_def)

lemma three_chats_scrape:
  "scrape_saved_messages three_chats ''2024-01-15'' =
     (Inr (ResultEnvelope ''2024-01-15''
        [\<lparr>sr_message_id = 4, sr_text = ''memo'', sr_date = ''2024-01-15T23:59:59.999999+00:00'',
          sr_is_read = False, sr_media_type = None\<rparr>,
         \<lparr>sr_message_id = 3, sr_text = ''memo'', sr_date = ''2024-01-15T00:00:00+00:00'',
          sr_is_read = False, sr_media_type = None\<rparr>] 2),
      [GetMe, IterMessages (PeerId 7) None None, Next, Next, Next, Next])"
  by (simp add: scrape_saved_messages_def parse_day start_of_day_def end_of_day_def pulled_def
      dt_lt_def dt_le_def dt_fields_def utc_def memo_def myself_def three_chats_def double_def
      archive_def scrape_record_of_def isoformat_def zpad_def digit_char_def str_nat.simps)

theorem total_is_length_witness:
  "(3 :: int) = int (length [hit_record 1 10, hit_record 2 20, hit_record 3 30])
   \<and> [hit_record 1 10, hit_record 2 20, hit_record 3 30]
       = collected three_chats ''budget'' [chat 1, chat 2, chat 3]
   \<and> (2 :: int) =
       int (length
         [\<lparr>sr_message_id = 4, sr_text = ''memo'', sr_date = ''2024-01-15T23:59:59.999999+00:00'',
           sr_is_read = False, sr_media_type = None\<rparr>,
          \<lparr>sr_message_id = 3, sr_text = ''memo'', sr_date = ''2024-01-15T00:00:00+00:00'',
           sr_is_read = False, sr_media_type = None\<rparr>])"
proof -
  note both = total_is_length [where tg = three_chats and query = "''budget''"
      and chat_id = None and target_date = "''2024-01-15''",
      unfolded three_chats_calls three_chats_scrape]
  from both have "(3 :: int) = int (length [hit_record 1 10, hit_record 2 20, hit_record 3 30])"
    by blast
  moreover from both obtain ds where "tl_get_dialogs three_chats = Inr ds"
    and "[hit_record 1 10, hit_record 2 20, hit_record 3 30]
           = collected three_chats ''budget'' (selected ds None)"
    by blast
  then have "[hit_record 1 10, hit_record 2 20, hit_record 3 30]
       = collected three_chats ''budget'' [chat 1, chat 2, chat 3]"
    by (simp add: three_chats_def double_def selected_def)
  moreover from both have "(2 :: int) =
       int (length
         [\<lparr>sr_message_id = 4, sr_text = ''memo'', sr_date = ''2024-01-15T23:59:59.999999+00:00'',
           sr_is_read = False, sr_media_type = None\<rparr>,
          \<lparr>sr_message_id = 3, sr_text = ''memo'', sr_date = ''2024-01-15T00:00:00+00:00'',
           sr_is_read = False, sr_media_type = None\<rparr>])"
    by blast
  ultimately show ?thesis by blast
qed

section \<open>The date argument\<close>























section \<open>The command surface\<close>

lemma search_dialogs_calls:
  "Disconnect \<notin> set calls \<Longrightarrow> Disconnect \<notin> set (snd (search_dialogs tg q ds rs calls))"
proof (induction ds arbitrary: rs calls)
  case Nil
  then show ?case by simp
next
  case (Cons d ds)
  then show ?case
    by (auto simp: search_messages_eq Let_def split: option.splits)
qed

lemma search_global_calls: "Disconnect \<notin> set (snd (search_global tg q c))"
proof -
  have "Disconnect \<notin> set (snd (search_in tg q ds))" for ds
    using search_dialogs_calls [of "[GetDialogs]" tg q ds "[]"]
    by (auto simp: search_in_def split: prod.splits sum.splits)
  then show ?thesis
    by (auto simp: search_global_def Let_def split: sum.splits)
qed

lemma scrape_calls: "Disconnect \<notin> set (snd (scrape_saved_messages tg t))"
  by (auto simp: scrape_saved_messages_def Let_def split: option.splits sum.splits prod.splits)

lemma get_me_calls: "Disconnect \<notin> set (snd (get_me tg))"
  by (auto simp: get_me_def split: option.splits sum.splits)

lemma dispatch_calls: "dispatch tg sn a = (r, calls, out) \<Longrightarrow> Disconnect \<notin> set calls"
  using search_global_calls [of tg "case a_search a of Some q \<Rightarrow> q | None \<Rightarrow> []" "a_chat_id a"]
    scrape_calls [of tg "case a_scrape_saved a of Some d \<Rightarrow> d | None \<Rightarrow> []"]
    get_me_calls [of tg]
  by (auto simp: dispatch_def split: if_splits prod.splits sum.splits)

lemma connect_calls:
  assumes "connect tg = (has_client, r, calls, out)"
  shows "Disconnect \<notin> set calls \<and> (has_client \<longleftrightarrow> tl_new tg = None)"
proof (cases "tl_new tg")
  case None
  with assms show ?thesis
    by (auto simp: connect_def split: option.splits if_splits)
next
  case (Some x)
  with assms have "calls = [NewClient]" and "\<not> has_client"
    by (simp_all add: connect_def)
  with Some show ?thesis by simp
qed

lemma try_block_calls:
  assumes "try_block tg a = (has_client, r, calls, out)"
  shows "Disconnect \<notin> set calls \<and> (has_client \<longleftrightarrow> tl_new tg = None)"
proof -
  obtain hc r0 calls0 out0 where c: "connect tg = (hc, r0, calls0, out0)"
    by (cases "connect tg") auto
  obtain r1 calls1 out1 where d: "dispatch tg ''anon'' a = (r1, calls1, out1)"
    by (cases "dispatch tg ''anon'' a") auto
  from assms c d have "has_client = hc" and "calls = calls0 \<or> calls = calls0 @ calls1"
    by (auto simp: try_block_def split: option.splits)
  with connect_calls [OF c] dispatch_calls [OF d] show ?thesis by auto
qed

lemma run_client_calls:
  "\<exists>body. calls_of (run_client tg a) = body @ (if tl_new tg = None then [Disconnect] else [])
          \<and> Disconnect \<notin> set body"
proof -
  obtain hc r calls out where t: "try_block tg a = (hc, r, calls, out)"
    by (cases "try_block tg a") auto
  from try_block_calls [OF t] have "Disconnect \<notin> set calls" and "hc \<longleftrightarrow> tl_new tg = None"
    by auto
  with t have "calls_of (run_client tg a) = calls @ (if tl_new tg = None then [Disconnect] else [])"
    by (auto simp: run_client_def calls_of_def disconnect_def split: prod.splits option.splits)
  with \<open>Disconnect \<notin> set calls\<close> show ?thesis by blast
qed

lemma main_with_credentials:
  "has_credentials py_int a env_id env_hash \<Longrightarrow> main py_int tg a env_id env_hash = run_client tg a"
  by (auto simp: main_def has_credentials_def Let_def)

text \<open>
  C9, as amended. For every run that gets past the credential checks, however it ends
  (\<open>main\<close> returns, an error envelope or an exception is reported, an interrupt, an
  exception of \<open>disconnect\<close> itself): when the external client object was created, its
  disconnect operation is invoked exactly once, as the last library call of the run; when
  creating it raised, disconnect is not invoked.
\<close>

theorem disconnect_once_if_constructed:
  assumes creds: "has_credentials py_int a env_id env_hash"
  shows "(tl_new tg = None \<longrightarrow>
            count_list (calls_of (main py_int tg a env_id env_hash)) Disconnect = 1
            \<and> last (calls_of (main py_int tg a env_id env_hash)) = Disconnect)
         \<and> (tl_new tg \<noteq> None \<longrightarrow>
            count_list (calls_of (main py_int tg a env_id env_hash)) Disconnect = 0)"
proof -
  from run_client_calls [of tg a] obtain body where
    calls: "calls_of (run_client tg a) = body @ (if tl_new tg = None then [Disconnect] else [])"
    and body: "Disconnect \<notin> set body"
    by blast
  from body have "count_list body Disconnect = 0"
    by (simp add: count_list_0_iff)
  with calls main_with_credentials [OF creds, of tg] show ?thesis
    by auto
qed

lemma flags_credentials: "has_credentials (\<lambda>s. None) (flags\<lparr>a_search := Some ''budget''\<rparr>) None None"
  by (simp add: has_credentials_def flags_def resolve_api_id_def resolve_api_hash_def nonempty_def)

lemma locked_run:
  "main (\<lambda>s. None) locked (flags\<lparr>a_search := Some ''budget''\<rparr>) None None =
     (Exit 1, [NewClient], [Json (ErrorReport ''database is locked'' ''OperationalError'')])"
  by (simp add: main_def flags_def resolve_api_id_def resolve_api_hash_def nonempty_def
      run_client_def try_block_def connect_def disconnect_def locked_def three_chats_def double_def)

theorem disconnect_once_if_constructed_witness:
  "count_list (calls_of (main (\<lambda>s. None) three_chats (flags\<lparr>a_search := Some ''budget''\<rparr>) None None))
     Disconnect = 1
   \<and> last (calls_of (main (\<lambda>s. None) three_chats (flags\<lparr>a_search := Some ''budget''\<rparr>) None None))
       = Disconnect
   \<and> count_list (calls_of (main (\<lambda>s. None) locked (flags\<lparr>a_search := Some ''budget''\<rparr>) None None))
     Disconnect = 0"
  using disconnect_once_if_constructed [OF flags_credentials, of three_chats]
    disconnect_once_if_constructed [OF flags_credentials, of locked]
  by (simp add: locked_def three_chats_def double_def)

text \<open>
  The claim as stated fails for the run in which creating the external client raises:
  the exception is reported, the process exits with status 1, and \<open>disconnect\<close> finds
  \<open>self.client\<close> unset and calls nothing.
\<close>

theorem disconnect_missing_counterexample:
  "main (\<lambda>s. None) locked (flags\<lparr>a_search := Some ''budget''\<rparr>) None None =
     (Exit 1, [NewClient], [Json (ErrorReport ''database is locked'' ''OperationalError'')])
   \<and> count_list (calls_of (main (\<lambda>s. None) locked (flags\<lparr>a_search := Some ''budget''\<rparr>) None None))
        Disconnect \<noteq> 1"
  by (simp add: locked_run calls_of_def)

end
